theory Spec2Isabelle
  imports Complex_Main "HOL-Library.Word"
begin

section \<open>JavaScript values as the handler sees them\<close>

text \<open>
  The handler of \<^verbatim>\<open>src/main.ts\<close> is one asynchronous function, \<^verbatim>\<open>responseProvider\<close>,
  and its helper \<^verbatim>\<open>generateDigest\<close>. Both are embedded below as pure functions of the
  request and of the capabilities the runtime injects. The two places where the handler
  awaits (the body, the digest) are steps of a sequential evaluation; a promise that is
  rejected is an error value, and the promise the handler returns is its result: a
  response, or the error thrown.

  A JavaScript string is a sequence of UTF-16 code units; \<^verbatim>\<open>.length\<close> counts code
  units. A byte of a \<^verbatim>\<open>Uint8Array\<close> is an 8-bit word.
\<close>

type_synonym jsstring = "16 word list"
type_synonym byte = "8 word"

definition js :: "string \<Rightarrow> jsstring" where
  \<comment> \<open>an ASCII literal of the source as code units\<close>
  "js s = map of_char s"

text \<open>
  Numbers are kept as exact reals, with \<open>NaN\<close> apart. The handler only compares numbers
  with 16384 and with 1 and tests them for zero; rounding an integer to a double (and
  overflow to an infinity) is monotone and fixes 1 and 16384, so these tests give the
  same answers on the exact value.
\<close>

datatype jsnumber = NaN | Num real

fun numberLess :: "jsnumber \<Rightarrow> jsnumber \<Rightarrow> bool" where
  \<comment> \<open>\<^verbatim>\<open>a < b\<close> on numbers: false as soon as one side is NaN\<close>
  "numberLess (Num a) (Num b) = (a < b)"
| "numberLess _ _ = False"

text \<open>
  What \<^verbatim>\<open>request.json()\<close> can resolve to, and \<^verbatim>\<open>undefined\<close>, the value of a property
  that is not there. An object is the list of its own members, as \<^verbatim>\<open>JSON.parse\<close> left
  them (one entry per key).
\<close>

datatype jsvalue =
    Undefined
  | Null
  | Bool bool
  | Number jsnumber
  | Str jsstring
  | Arr "jsvalue list"
  | Obj "(jsstring \<times> jsvalue) list"

datatype js_error = TypeError

fun ToBoolean :: "jsvalue \<Rightarrow> bool" where
  "ToBoolean Undefined = False"
| "ToBoolean Null = False"
| "ToBoolean (Bool b) = b"
| "ToBoolean (Number NaN) = False"
| "ToBoolean (Number (Num x)) = (x \<noteq> 0)"
| "ToBoolean (Str s) = (s \<noteq> [])"
| "ToBoolean (Arr vs) = True"
| "ToBoolean (Obj ps) = True"

fun Get :: "jsvalue \<Rightarrow> jsstring \<Rightarrow> js_error + jsvalue" where
  \<comment> \<open>\<^verbatim>\<open>v[k]\<close> for the three keys the handler reads: \<^verbatim>\<open>uname\<close>, \<^verbatim>\<open>passwd\<close>, \<^verbatim>\<open>length\<close>.
      None of them is inherited from a prototype, but \<^verbatim>\<open>length\<close> of a string or array.\<close>
  "Get Undefined k = Inl TypeError"
| "Get Null k = Inl TypeError"
| "Get (Obj ps) k = Inr (case map_of ps k of Some v \<Rightarrow> v | None \<Rightarrow> Undefined)"
| "Get (Str s) k =
     Inr (if k = js ''length'' then Number (Num (of_nat (length s))) else Undefined)"
| "Get (Arr vs) k =
     Inr (if k = js ''length'' then Number (Num (of_nat (length vs))) else Undefined)"
| "Get (Bool b) k = Inr Undefined"
| "Get (Number n) k = Inr Undefined"

section \<open>Capabilities of the runtime\<close>

text \<open>
  The Unicode tables behind \<^verbatim>\<open>String.prototype.toLowerCase\<close> and
  \<^verbatim>\<open>String.prototype.normalize("NFC")\<close>, the digest provider \<^verbatim>\<open>crypto.subtle.digest\<close>
  and the engine's conversion of a string or object to a number are not part of the
  repository: the handler is a function of them. \<open>digest\<close> takes the algorithm name and
  the message bytes. \<open>coerce\<close> is consulted only when \<^verbatim>\<open>passwd\<close> is an object that has a
  member \<^verbatim>\<open>length\<close> which is not a number.
\<close>

record env =
  toLowerCase :: "jsstring \<Rightarrow> jsstring"
  normalizeNFC :: "jsstring \<Rightarrow> jsstring"
  digest :: "jsstring \<Rightarrow> byte list \<Rightarrow> byte list"
  coerce :: "jsvalue \<Rightarrow> js_error + jsnumber"

fun ToNumber :: "env \<Rightarrow> jsvalue \<Rightarrow> js_error + jsnumber" where
  "ToNumber E Undefined = Inr NaN"
| "ToNumber E Null = Inr (Num 0)"
| "ToNumber E (Bool b) = Inr (Num (if b then 1 else 0))"
| "ToNumber E (Number n) = Inr n"
| "ToNumber E v = coerce E v"

definition greaterThan1 :: "env \<Rightarrow> jsvalue \<Rightarrow> js_error + bool" where
  \<comment> \<open>\<^verbatim>\<open>v > 1\<close>\<close>
  "greaterThan1 E v =
     (case ToNumber E v of Inl e \<Rightarrow> Inl e | Inr n \<Rightarrow> Inr (numberLess (Num 1) n))"

fun call_toLowerCase :: "env \<Rightarrow> jsvalue \<Rightarrow> js_error + jsstring" where
  \<comment> \<open>\<^verbatim>\<open>v.toLowerCase()\<close>: only a string has the method\<close>
  "call_toLowerCase E (Str s) = Inr (toLowerCase E s)"
| "call_toLowerCase E v = Inl TypeError"

fun call_normalize :: "env \<Rightarrow> jsvalue \<Rightarrow> js_error + jsstring" where
  \<comment> \<open>\<^verbatim>\<open>v.normalize("NFC")\<close>: only a string has the method\<close>
  "call_normalize E (Str s) = Inr (normalizeNFC E s)"
| "call_normalize E v = Inl TypeError"

section \<open>parseInt\<close>

definition StrWhiteSpaceChar :: "16 word \<Rightarrow> bool" where
  \<comment> \<open>white space and line terminators, which \<^verbatim>\<open>parseInt\<close> skips at the start\<close>
  "StrWhiteSpaceChar c =
     (c = 0x9 \<or> c = 0xA \<or> c = 0xB \<or> c = 0xC \<or> c = 0xD \<or> c = 0x20 \<or> c = 0xA0 \<or>
      c = 0x1680 \<or> (0x2000 \<le> c \<and> c \<le> 0x200A) \<or> c = 0x2028 \<or> c = 0x2029 \<or>
      c = 0x202F \<or> c = 0x205F \<or> c = 0x3000 \<or> c = 0xFEFF)"

definition isDigit :: "16 word \<Rightarrow> bool" where
  "isDigit c = (0x30 \<le> c \<and> c \<le> 0x39)"

definition digitsValue :: "jsstring \<Rightarrow> int" where
  "digitsValue Z = foldl (\<lambda>a c. 10 * a + (uint c - 0x30)) 0 Z"

definition parseInt :: "jsstring option \<Rightarrow> jsnumber" where
  \<comment> \<open>\<^verbatim>\<open>parseInt(x, 10)\<close> where \<open>x\<close> is a string or \<^verbatim>\<open>undefined\<close> (\<open>None\<close>)\<close>
  "parseInt x =
     (let inputString = (case x of None \<Rightarrow> js ''undefined'' | Some s \<Rightarrow> s);
          S = dropWhile StrWhiteSpaceChar inputString;
          sign = (if S \<noteq> [] \<and> hd S = 0x2D then - 1 else 1);
          S' = (if S \<noteq> [] \<and> (hd S = 0x2B \<or> hd S = 0x2D) then tl S else S);
          Z = takeWhile isDigit S'
      in if Z = [] then NaN else Num (of_int (sign * digitsValue Z)))"

section \<open>TextEncoder, hexadecimal digits, JSON.stringify\<close>

definition isLeadSurrogate :: "16 word \<Rightarrow> bool" where
  "isLeadSurrogate c = (0xD800 \<le> c \<and> c \<le> 0xDBFF)"

definition isTrailSurrogate :: "16 word \<Rightarrow> bool" where
  "isTrailSurrogate c = (0xDC00 \<le> c \<and> c \<le> 0xDFFF)"

definition scalarOfUnit :: "16 word \<Rightarrow> nat" where
  \<comment> \<open>a code unit on its own: a lone surrogate is replaced by U+FFFD\<close>
  "scalarOfUnit c = (if isLeadSurrogate c \<or> isTrailSurrogate c then 0xFFFD else unat c)"

fun scalarValues :: "jsstring \<Rightarrow> nat list" where
  \<comment> \<open>the Unicode characters (scalar values) of a string, surrogate pairs joined\<close>
  "scalarValues [] = []"
| "scalarValues [c] = [scalarOfUnit c]"
| "scalarValues (c # d # cs) =
     (if isLeadSurrogate c \<and> isTrailSurrogate d
      then (0x10000 + (unat c - 0xD800) * 0x400 + (unat d - 0xDC00)) # scalarValues cs
      else scalarOfUnit c # scalarValues (d # cs))"

definition utf8 :: "nat \<Rightarrow> byte list" where
  "utf8 cp =
     (if cp < 0x80 then [of_nat cp]
      else if cp < 0x800 then [of_nat (0xC0 + cp div 0x40), of_nat (0x80 + cp mod 0x40)]
      else if cp < 0x10000 then
        [of_nat (0xE0 + cp div 0x1000), of_nat (0x80 + cp div 0x40 mod 0x40),
         of_nat (0x80 + cp mod 0x40)]
      else
        [of_nat (0xF0 + cp div 0x40000), of_nat (0x80 + cp div 0x1000 mod 0x40),
         of_nat (0x80 + cp div 0x40 mod 0x40), of_nat (0x80 + cp mod 0x40)])"

definition TextEncoder_encode :: "jsstring \<Rightarrow> byte list" where
  \<comment> \<open>\<^verbatim>\<open>new TextEncoder().encode(s)\<close>: the UTF-8 bytes of \<open>s\<close>\<close>
  "TextEncoder_encode s = concat (map utf8 (scalarValues s))"

definition hexDigit :: "nat \<Rightarrow> 16 word" where
  "hexDigit d = (if d < 10 then 0x30 + of_nat d else 0x61 + of_nat (d - 10))"

function toString16 :: "nat \<Rightarrow> jsstring" where
  \<comment> \<open>\<^verbatim>\<open>n.toString(16)\<close> for a natural number\<close>
  "toString16 n = (if n < 16 then [hexDigit n] else toString16 (n div 16) @ [hexDigit (n mod 16)])"
  by pat_completeness auto
termination
  by (relation "measure id") auto

definition padStart :: "nat \<Rightarrow> jsstring \<Rightarrow> jsstring \<Rightarrow> jsstring" where
  \<comment> \<open>\<^verbatim>\<open>s.padStart(n, fill)\<close>\<close>
  "padStart n fill s =
     (if n \<le> length s \<or> fill = [] then s
      else take (n - length s) (concat (replicate (n - length s) fill)) @ s)"

fun join :: "jsstring \<Rightarrow> jsstring list \<Rightarrow> jsstring" where
  \<comment> \<open>\<^verbatim>\<open>xs.join(sep)\<close> on an array of strings\<close>
  "join sep [] = []"
| "join sep [x] = x"
| "join sep (x # y # ys) = x @ sep @ join sep (y # ys)"

definition unicodeEscape :: "16 word \<Rightarrow> jsstring" where
  \<comment> \<open>a backslash, the letter u and four lowercase hexadecimal digits\<close>
  "unicodeEscape c = [0x5C, 0x75] @ padStart 4 (js ''0'') (toString16 (unat c))"

definition quoteUnit :: "16 word \<Rightarrow> jsstring" where
  \<comment> \<open>one code unit inside a JSON string literal (a surrogate here is a lone one)\<close>
  "quoteUnit c =
     (if c = 0x8 then [0x5C, 0x62] else if c = 0x9 then [0x5C, 0x74]
      else if c = 0xA then [0x5C, 0x6E] else if c = 0xC then [0x5C, 0x66]
      else if c = 0xD then [0x5C, 0x72] else if c = 0x22 then [0x5C, 0x22]
      else if c = 0x5C then [0x5C, 0x5C]
      else if c < 0x20 \<or> isLeadSurrogate c \<or> isTrailSurrogate c then unicodeEscape c
      else [c])"

fun quoteUnits :: "jsstring \<Rightarrow> jsstring" where
  "quoteUnits [] = []"
| "quoteUnits [c] = quoteUnit c"
| "quoteUnits (c # d # cs) =
     (if isLeadSurrogate c \<and> isTrailSurrogate d then c # d # quoteUnits cs
      else quoteUnit c @ quoteUnits (d # cs))"

definition QuoteJSONString :: "jsstring \<Rightarrow> jsstring" where
  "QuoteJSONString s = [0x22] @ quoteUnits s @ [0x22]"

definition JSON_stringify_key :: "jsstring \<Rightarrow> jsstring" where
  \<comment> \<open>\<^verbatim>\<open>JSON.stringify({ key: hex })\<close>\<close>
  "JSON_stringify_key hex =
     js ''{'' @ QuoteJSONString (js ''key'') @ js '':'' @ QuoteJSONString hex @ js ''}''"

section \<open>Request, response and effects\<close>

record request =
  getHeader :: "jsstring \<Rightarrow> jsstring list option"
    \<comment> \<open>the values of a header; \<open>None\<close> when the request has no such header\<close>
  json :: "jsvalue option"
    \<comment> \<open>what \<^verbatim>\<open>request.json()\<close> resolves to; \<open>None\<close> when the promise is rejected\<close>

record response =
  status :: int
  headers :: "(jsstring \<times> jsstring list) list"
  body :: jsstring

definition createResponse ::
  "int \<Rightarrow> (jsstring \<times> jsstring list) list \<Rightarrow> jsstring \<Rightarrow> response" where
  "createResponse s h b = \<lparr>status = s, headers = h, body = b\<rparr>"

datatype effect = ReadBody | LogInfo jsstring | LogError jsstring

section \<open>The handler\<close>

definition UNAME :: jsstring where
  "UNAME = js ''uname''"

definition PASSWD :: jsstring where
  "PASSWD = js ''passwd''"

definition maxBodyLength :: jsnumber where
  "maxBodyLength = Num 16384"

definition hexOfBytes :: "byte list \<Rightarrow> jsstring" where
  \<comment> \<open>\<^verbatim>\<open>walkable.map((b) => b.toString(16).padStart(2, "0")).join("")\<close>\<close>
  "hexOfBytes walkable =
     join (js []) (map (\<lambda>b. padStart 2 (js ''0'') (toString16 (unat b))) walkable)"

definition generateDigest :: "env \<Rightarrow> jsstring \<Rightarrow> jsstring \<Rightarrow> jsstring" where
  "generateDigest E algorithm stringToDigest =
     (let msgUint8 = TextEncoder_encode stringToDigest;
          hashBuffer = digest E algorithm msgUint8;
          walkable = hashBuffer
      in hexOfBytes walkable)"

definition firstValue :: "jsstring list option \<Rightarrow> js_error + jsstring option" where
  \<comment> \<open>\<^verbatim>\<open>request.getHeader(name)[0]\<close>: indexing a missing header list throws, indexing
      an empty one gives \<^verbatim>\<open>undefined\<close>\<close>
  "firstValue h =
     (case h of None \<Rightarrow> Inl TypeError | Some [] \<Rightarrow> Inr None | Some (v # vs) \<Rightarrow> Inr (Some v))"

definition andThen :: "js_error + 'a \<Rightarrow> ('a \<Rightarrow> js_error + 'b) \<Rightarrow> js_error + 'b" where
  \<comment> \<open>evaluate, and go on with the value unless an error was thrown\<close>
  "andThen m f = (case m of Inl e \<Rightarrow> Inl e | Inr x \<Rightarrow> f x)"

definition underLimit :: "request \<Rightarrow> js_error + bool" where
  \<comment> \<open>\<^verbatim>\<open>parseInt(request.getHeader("content-length")[0], 10) < maxBodyLength\<close>\<close>
  "underLimit request =
     andThen (firstValue (getHeader request (js ''content-length'')))
       (\<lambda>h. Inr (numberLess (parseInt h) maxBodyLength))"

definition bodyIsValid :: "env \<Rightarrow> jsvalue \<Rightarrow> js_error + bool" where
  \<comment> \<open>\<^verbatim>\<open>myBody && myBody[UNAME] && myBody[PASSWD] && myBody[PASSWD].length > 1\<close>,
      as the \<^verbatim>\<open>if\<close> reads it\<close>
  "bodyIsValid E myBody =
     (if \<not> ToBoolean myBody then Inr False
      else andThen (Get myBody UNAME) (\<lambda>u.
        if \<not> ToBoolean u then Inr False
        else andThen (Get myBody PASSWD) (\<lambda>p.
          if \<not> ToBoolean p then Inr False
          else andThen (Get p (js ''length'')) (greaterThan1 E))))"

definition normalizedUnamePasswd :: "env \<Rightarrow> jsvalue \<Rightarrow> js_error + jsstring" where
  \<comment> \<open>\<^verbatim>\<open>myBody[UNAME].toLowerCase().normalize("NFC") + myBody[PASSWD].normalize("NFC")\<close>\<close>
  "normalizedUnamePasswd E myBody =
     andThen (Get myBody UNAME) (\<lambda>u.
     andThen (call_toLowerCase E u) (\<lambda>lower.
     andThen (Get myBody PASSWD) (\<lambda>p.
     andThen (call_normalize E p) (\<lambda>np.
       Inr (normalizeNFC E lower @ np)))))"

definition responseProvider :: "env \<Rightarrow> request \<Rightarrow> effect list \<times> (js_error + response)" where
  \<comment> \<open>the effects in the order they happen, and the response or the error thrown\<close>
  "responseProvider E request =
     (case underLimit request of
        Inl e \<Rightarrow> ([], Inl e)
      | Inr True \<Rightarrow>
          (let myBody = (case json request of None \<Rightarrow> Null | Some v \<Rightarrow> v) in
           case bodyIsValid E myBody of
             Inl e \<Rightarrow> ([ReadBody], Inl e)
           | Inr True \<Rightarrow>
               (case normalizedUnamePasswd E myBody of
                  Inl e \<Rightarrow> ([ReadBody], Inl e)
                | Inr s \<Rightarrow>
                    (let hex = generateDigest E (js ''SHA-256'') s in
                     ([ReadBody,
                       LogInfo (js ''SHA-256 hash created from username+password combination'')],
                      Inr (createResponse 200
                             [(js ''Content-Type'', [js ''application/json''])]
                             (JSON_stringify_key hex)))))
           | Inr False \<Rightarrow>
               ([ReadBody, LogError (js ''Something wrong with the request body'')],
                Inr (createResponse 500 [] (js ''Something wrong with the provided body''))))
      | Inr False \<Rightarrow>
          ([LogError (js ''Body too large'')],
           Inr (createResponse 500 [] (js ''Body too large''))))"

section \<open>A sample environment\<close>

text \<open>
  For evaluating the handler on ASCII input: there \<^verbatim>\<open>toLowerCase\<close> maps A-Z to a-z and
  NFC normalisation changes nothing. The digest provider is represented by a function of
  the right output length, the first 32 bytes of the message padded with zeros; no
  statement below depends on which 32 bytes a provider returns.

  The sample environment does not say how the engine converts a string, an array or an
  object to a number (for a decimal text that depends on the engine's rounding): its
  \<open>coerce\<close> is left unspecified. The handler asks for it only when \<^verbatim>\<open>passwd\<close> is an
  object with a member \<^verbatim>\<open>length\<close> that is not a number, and no sample body is one.
\<close>

definition asciiLower :: "16 word \<Rightarrow> 16 word" where
  "asciiLower c = (if 0x41 \<le> c \<and> c \<le> 0x5A then c + 0x20 else c)"

definition zeros32 :: "byte list" where
  "zeros32 = [0, 0, 0, 0, 0, 0, 0, 0, 0, 0, 0, 0, 0, 0, 0, 0,
              0, 0, 0, 0, 0, 0, 0, 0, 0, 0, 0, 0, 0, 0, 0, 0]"

definition sampleEnv :: env where
  "sampleEnv =
     \<lparr>toLowerCase = map asciiLower,
      normalizeNFC = (\<lambda>s. s),
      digest = (\<lambda>algorithm msg. take 32 (msg @ zeros32)),
      coerce = (\<lambda>v. undefined)\<rparr>"

definition sampleRequest :: "string \<Rightarrow> jsvalue option \<Rightarrow> request" where
  \<comment> \<open>a request with one \<^verbatim>\<open>content-length\<close> value and the given outcome of \<^verbatim>\<open>request.json()\<close>\<close>
  "sampleRequest len b =
     \<lparr>getHeader = (\<lambda>k. if k = js ''content-length'' then Some [js len] else None),
      json = b\<rparr>"

definition credentials :: "jsstring \<Rightarrow> jsstring \<Rightarrow> jsvalue" where
  \<comment> \<open>the body \<^verbatim>\<open>{"uname": u, "passwd": p}\<close>\<close>
  "credentials u p = Obj [(UNAME, Str u), (PASSWD, Str p)]"

text \<open>
  The example in the comment of the source: the user name \<^verbatim>\<open>Normalisation@Test.NL\<close>
  and a password of six letters, three of them accented (U+00FC, U+00E1, U+00FB), in
  composed form.
\<close>

definition exampleUname :: jsstring where
  "exampleUname = js ''Normalisation@Test.NL''"

definition examplePasswd :: jsstring where
  "examplePasswd = [0xFC, 0x6D, 0x6C, 0xE1, 0xFB, 0x74]"

definition exampleBytes :: "byte list" where
  "exampleBytes =
     [0x6E, 0x6F, 0x72, 0x6D, 0x61, 0x6C, 0x69, 0x73, 0x61, 0x74, 0x69, 0x6F, 0x6E, 0x40,
      0x74, 0x65, 0x73, 0x74, 0x2E, 0x6E, 0x6C, 0xC3, 0xBC, 0x6D, 0x6C, 0xC3, 0xA1, 0xC3,
      0xBB, 0x74]"

section \<open>Reading hexadecimal text back\<close>

text \<open>
  The handler only writes hexadecimal text. To state that nothing is lost in writing it,
  the digits are read back by \<open>bytesOfHex\<close>; \<open>scalarValues\<close> above counts the Unicode
  characters of a string.
\<close>

definition isLowerHex :: "16 word \<Rightarrow> bool" where
  \<comment> \<open>one of \<^verbatim>\<open>0123456789abcdef\<close>\<close>
  "isLowerHex c = ((0x30 \<le> c \<and> c \<le> 0x39) \<or> (0x61 \<le> c \<and> c \<le> 0x66))"

definition hexValue :: "16 word \<Rightarrow> nat" where
  "hexValue c = (if c \<le> 0x39 then unat c - 0x30 else unat c - 0x61 + 10)"

fun bytesOfHex :: "jsstring \<Rightarrow> byte list option" where
  "bytesOfHex [] = Some []"
| "bytesOfHex [c] = None"
| "bytesOfHex (c # d # cs) =
     (if isLowerHex c \<and> isLowerHex d
      then map_option ((#) (of_nat (16 * hexValue c + hexValue d))) (bytesOfHex cs)
      else None)"

definition byteHex :: "byte \<Rightarrow> jsstring" where
  \<comment> \<open>the two digits of a byte, high nibble first\<close>
  "byteHex b = [hexDigit (unat b div 16), hexDigit (unat b mod 16)]"

section \<open>Hexadecimal rendering\<close>

declare toString16.simps [simp del]

lemma js_Nil: "js [] = []"
  by (simp add: js_def)

lemma join_empty: "join [] xs = concat xs"
proof (induction xs)
  case Nil
  show ?case by simp
next
  case (Cons x xs)
  then show ?case by (cases xs) simp_all
qed

lemma toString16_small: "n < 16 \<Longrightarrow> toString16 n = [hexDigit n]"
  by (subst toString16.simps) simp

lemma toString16_two:
  "16 \<le> n \<Longrightarrow> n < 256 \<Longrightarrow> toString16 n = [hexDigit (n div 16), hexDigit (n mod 16)]"
  by (subst toString16.simps) (simp add: toString16_small less_mult_imp_div_less)

lemma hexDigit_0: "hexDigit 0 = 0x30"
  by (simp add: hexDigit_def)

lemma padStart_byte: "padStart 2 (js ''0'') (toString16 (unat (b::byte))) = byteHex b"
proof (cases "unat b < 16")
  case True
  then show ?thesis
    by (simp add: toString16_small padStart_def byteHex_def js_def hexDigit_0)
next
  case False
  have "unat b < 256"
    using unsigned_less [of b, where ?'a = nat] by simp
  with False show ?thesis
    by (simp add: toString16_two padStart_def byteHex_def)
qed

lemma hexOfBytes_concat: "hexOfBytes bs = concat (map byteHex bs)"
  by (simp add: hexOfBytes_def js_Nil join_empty padStart_byte)

lemma length_hexOfBytes: "length (hexOfBytes bs) = 2 * length bs"
  by (induction bs) (simp_all add: hexOfBytes_concat byteHex_def)

lemma sixteen_cases:
  "d < 16 \<Longrightarrow> d \<in> {0, 1, 2, 3, 4, 5, 6, 7, 8, 9, 10, 11, 12, 13, 14, 15::nat}"
  by simp arith

lemma byte_high_nibble: "unat (b::byte) div 16 < 16"
  using unsigned_less [of b, where ?'a = nat] by (simp add: less_mult_imp_div_less)

lemma isLowerHex_hexDigit: "d < 16 \<Longrightarrow> isLowerHex (hexDigit d)"
  using sixteen_cases [of d] by (auto simp: isLowerHex_def hexDigit_def)

lemma hexValue_hexDigit: "d < 16 \<Longrightarrow> hexValue (hexDigit d) = d"
  using sixteen_cases [of d] by (auto simp: hexValue_def hexDigit_def)

lemma isLowerHex_byteHex: "list_all isLowerHex (byteHex b)"
  by (simp add: byteHex_def isLowerHex_hexDigit byte_high_nibble)

lemma list_all_hexOfBytes: "list_all isLowerHex (hexOfBytes bs)"
  by (induction bs) (simp_all add: hexOfBytes_concat isLowerHex_byteHex)

lemma bytesOfHex_byteHex: "bytesOfHex (byteHex b @ s) = map_option ((#) b) (bytesOfHex s)"
  by (simp add: byteHex_def isLowerHex_hexDigit hexValue_hexDigit byte_high_nibble)

lemma bytesOfHex_hexOfBytes: "bytesOfHex (hexOfBytes bs) = Some bs"
  by (induction bs) (simp_all add: hexOfBytes_concat bytesOfHex_byteHex)

text \<open>
  C10. The hexadecimal text that \<^verbatim>\<open>generateDigest\<close> writes is a faithful rendering of
  the bytes: every byte becomes exactly two digits, the high nibble first (so a byte
  below 16 starts with \<^verbatim>\<open>0\<close>), in the order of the bytes; the text is twice as long as
  the byte sequence, holds only the digits \<^verbatim>\<open>0-9\<close> and \<^verbatim>\<open>a-f\<close>, reads back to the same
  bytes, and two byte sequences with the same text are equal.
\<close>

theorem hex_encoding_faithful:
  "hexOfBytes bs = concat (map (\<lambda>b. [hexDigit (unat b div 16), hexDigit (unat b mod 16)]) bs)
   \<and> length (hexOfBytes bs) = 2 * length bs
   \<and> list_all isLowerHex (hexOfBytes bs)
   \<and> bytesOfHex (hexOfBytes bs) = Some bs
   \<and> (hexOfBytes bs = hexOfBytes bs' \<longleftrightarrow> bs = bs')"
proof -
  have inj: "hexOfBytes bs = hexOfBytes bs' \<longleftrightarrow> bs = bs'"
  proof
    assume "hexOfBytes bs = hexOfBytes bs'"
    then have "bytesOfHex (hexOfBytes bs) = bytesOfHex (hexOfBytes bs')" by simp
    then show "bs = bs'" by (simp add: bytesOfHex_hexOfBytes)
  qed simp
  have digits:
    "hexOfBytes bs = concat (map (\<lambda>b. [hexDigit (unat b div 16), hexDigit (unat b mod 16)]) bs)"
    using hexOfBytes_concat [of bs] by (simp add: byteHex_def [abs_def])
  from digits length_hexOfBytes [of bs] list_all_hexOfBytes [of bs]
    bytesOfHex_hexOfBytes [of bs] inj
  show ?thesis by blast
qed

theorem hex_encoding_faithful_witness:
  "hexOfBytes [0x00, 0x01, 0xAB, 0xFF, 0x10] = js ''0001abff10''
   \<and> length (hexOfBytes [0x00, 0x01, 0xAB, 0xFF, 0x10]) = 10
   \<and> bytesOfHex (hexOfBytes [0x00, 0x01, 0xAB, 0xFF, 0x10]) = Some [0x00, 0x01, 0xAB, 0xFF, 0x10]"
  using hex_encoding_faithful [of "[0x00, 0x01, 0xAB, 0xFF, 0x10]" "[]"]
  by (simp add: hexDigit_def js_def isLowerHex_def hexValue_def)

section \<open>The branches of the handler\<close>

lemma underLimit_eq:
  "firstValue (getHeader request (js ''content-length'')) = Inr h \<Longrightarrow>
   underLimit request = Inr (numberLess (parseInt h) maxBodyLength)"
  by (simp add: underLimit_def andThen_def)

lemma responseProvider_too_large:
  "underLimit request = Inr False \<Longrightarrow>
   responseProvider E request =
     ([LogError (js ''Body too large'')], Inr (createResponse 500 [] (js ''Body too large'')))"
  by (simp add: responseProvider_def)

lemma responseProvider_invalid:
  "underLimit request = Inr True \<Longrightarrow>
   bodyIsValid E (case json request of None \<Rightarrow> Null | Some v \<Rightarrow> v) = Inr False \<Longrightarrow>
   responseProvider E request =
     ([ReadBody, LogError (js ''Something wrong with the request body'')],
      Inr (createResponse 500 [] (js ''Something wrong with the provided body'')))"
  by (simp add: responseProvider_def)

lemma responseProvider_valid:
  "underLimit request = Inr True \<Longrightarrow>
   bodyIsValid E (case json request of None \<Rightarrow> Null | Some v \<Rightarrow> v) = Inr True \<Longrightarrow>
   normalizedUnamePasswd E (case json request of None \<Rightarrow> Null | Some v \<Rightarrow> v) = Inr s \<Longrightarrow>
   responseProvider E request =
     ([ReadBody, LogInfo (js ''SHA-256 hash created from username+password combination'')],
      Inr (createResponse 200 [(js ''Content-Type'', [js ''application/json''])]
             (JSON_stringify_key (generateDigest E (js ''SHA-256'') s))))"
  by (simp add: responseProvider_def)

lemma responseProvider_reads_body:
  "underLimit request = Inr True \<Longrightarrow>
   \<exists>rest. fst (responseProvider E request) = ReadBody # rest"
  by (auto simp: responseProvider_def Let_def split: sum.splits bool.splits)

lemma responseProvider_not_too_large:
  "underLimit request = Inr True \<Longrightarrow>
   snd (responseProvider E request) \<noteq> Inr (createResponse 500 [] (js ''Body too large''))"
  by (auto simp: responseProvider_def Let_def createResponse_def js_def
      split: sum.splits bool.splits)

lemma bodyIsValid_Null: "bodyIsValid E Null = Inr False"
  by (simp add: bodyIsValid_def)

lemma bodyIsValid_strings:
  assumes "map_of ms UNAME = Some (Str uname)" and "map_of ms PASSWD = Some (Str passwd)"
  shows "bodyIsValid E (Obj ms) = Inr (uname \<noteq> [] \<and> 1 < length passwd)"
  using assms by (auto simp: bodyIsValid_def andThen_def greaterThan1_def)

lemma normalizedUnamePasswd_strings:
  assumes "map_of ms UNAME = Some (Str uname)" and "map_of ms PASSWD = Some (Str passwd)"
  shows "normalizedUnamePasswd E (Obj ms) =
    Inr (normalizeNFC E (toLowerCase E uname) @ normalizeNFC E passwd)"
  using assms by (simp add: normalizedUnamePasswd_def andThen_def)

text \<open>
  The body is read exactly when the first \<^verbatim>\<open>content-length\<close> value parses to a number
  below 16384.
\<close>

lemma body_read_iff_below_limit:
  assumes "firstValue (getHeader request (js ''content-length'')) = Inr h"
  shows "ReadBody \<in> set (fst (responseProvider E request))
         \<longleftrightarrow> (\<exists>x. parseInt h = Num x \<and> x < 16384)"
proof (cases "numberLess (parseInt h) maxBodyLength")
  case True
  then have "underLimit request = Inr True"
    using assms by (simp add: underLimit_eq)
  from responseProvider_reads_body [OF this, of E]
  have "ReadBody \<in> set (fst (responseProvider E request))"
    by auto
  moreover from True have "\<exists>x. parseInt h = Num x \<and> x < 16384"
    by (cases "parseInt h") (simp_all add: maxBodyLength_def)
  ultimately show ?thesis by simp
next
  case False
  then have "underLimit request = Inr False"
    using assms by (simp add: underLimit_eq)
  then have "ReadBody \<notin> set (fst (responseProvider E request))"
    by (simp add: responseProvider_too_large)
  moreover from False have "\<not> (\<exists>x. parseInt h = Num x \<and> x < 16384)"
    by (auto simp: maxBodyLength_def)
  ultimately show ?thesis by simp
qed

text \<open>
  A request without a \<^verbatim>\<open>content-length\<close> header: indexing the missing list of values
  throws, before anything is compared, read or logged.
\<close>

lemma absent_content_length_throws:
  "getHeader request (js ''content-length'') = None \<Longrightarrow>
   responseProvider E request = ([], Inl TypeError)"
  by (simp add: responseProvider_def underLimit_def andThen_def firstValue_def)

text \<open>Only a JSON object can pass the checks.\<close>

lemma valid_body_is_object:
  "bodyIsValid E myBody = Inr True \<Longrightarrow> \<exists>ms. myBody = Obj ms"
  by (cases myBody)
    (auto simp: bodyIsValid_def andThen_def UNAME_def js_def split: if_splits)

text \<open>
  The checks do not ask for strings. A body that passes them with a \<^verbatim>\<open>uname\<close> or a
  \<^verbatim>\<open>passwd\<close> that is not a string makes the normalisation throw, after the body was
  read and before anything is logged: only a string has \<^verbatim>\<open>toLowerCase\<close> and
  \<^verbatim>\<open>normalize\<close>. An example is the user name 5 with an array of two elements as
  password.
\<close>

lemma normalizedUnamePasswd_not_strings:
  assumes "(\<nexists>u. map_of ms UNAME = Some (Str u)) \<or> (\<nexists>p. map_of ms PASSWD = Some (Str p))"
  shows "normalizedUnamePasswd E (Obj ms) = Inl TypeError"
proof (cases "\<exists>u. map_of ms UNAME = Some (Str u)")
  case True
  then obtain u where u: "map_of ms UNAME = Some (Str u)" by blast
  with assms have "\<nexists>p. map_of ms PASSWD = Some (Str p)" by simp
  then have "call_normalize E (case map_of ms PASSWD of None \<Rightarrow> Undefined | Some v \<Rightarrow> v)
      = Inl TypeError"
    by (cases "map_of ms PASSWD"; cases "the (map_of ms PASSWD)") simp_all
  with u show ?thesis
    by (simp add: normalizedUnamePasswd_def andThen_def)
next
  case False
  then have "call_toLowerCase E (case map_of ms UNAME of None \<Rightarrow> Undefined | Some v \<Rightarrow> v)
      = Inl TypeError"
    by (cases "map_of ms UNAME"; cases "the (map_of ms UNAME)") simp_all
  then show ?thesis
    by (simp add: normalizedUnamePasswd_def andThen_def)
qed

lemma valid_body_without_strings_throws:
  assumes "underLimit request = Inr True" and "json request = Some (Obj ms)"
      and "bodyIsValid E (Obj ms) = Inr True"
      and "(\<nexists>u. map_of ms UNAME = Some (Str u)) \<or> (\<nexists>p. map_of ms PASSWD = Some (Str p))"
  shows "responseProvider E request = ([ReadBody], Inl TypeError)"
  using assms(1-3) normalizedUnamePasswd_not_strings [OF assms(4), of E]
  by (simp add: responseProvider_def)

lemma non_string_members_throw:
  "underLimit request = Inr True \<Longrightarrow>
   json request = Some (Obj [(UNAME, Number (Num 5)), (PASSWD, Arr [Null, Null])]) \<Longrightarrow>
   responseProvider E request = ([ReadBody], Inl TypeError)"
  by (simp add: responseProvider_def bodyIsValid_def normalizedUnamePasswd_def andThen_def
      greaterThan1_def UNAME_def PASSWD_def js_def)

section \<open>JSON text of a hexadecimal key\<close>

lemma isLowerHex_range: "isLowerHex c \<Longrightarrow> 0x30 \<le> unat c \<and> unat c \<le> 0x66"
  by (auto simp: isLowerHex_def word_le_nat_alt)

lemma not_surrogate_hex:
  "isLowerHex c \<Longrightarrow> \<not> isLeadSurrogate c \<and> \<not> isTrailSurrogate c"
  using isLowerHex_range [of c]
  by (auto simp: isLeadSurrogate_def isTrailSurrogate_def word_le_nat_alt)

lemma quoteUnit_hex: "isLowerHex c \<Longrightarrow> quoteUnit c = [c]"
  using isLowerHex_range [of c] not_surrogate_hex [of c]
  by (auto simp: quoteUnit_def word_less_nat_alt isLowerHex_def)

lemma quoteUnits_hex: "list_all isLowerHex s \<Longrightarrow> quoteUnits s = s"
  by (induction s rule: quoteUnits.induct) (simp_all add: quoteUnit_hex not_surrogate_hex)

lemma QuoteJSONString_key: \<open>QuoteJSONString (js ''key'') = js ''"key"''\<close>
  by (simp add: QuoteJSONString_def js_def quoteUnit_def isLeadSurrogate_def
      isTrailSurrogate_def)

lemma JSON_stringify_key_hex:
  \<open>list_all isLowerHex hex \<Longrightarrow> JSON_stringify_key hex = js ''{"key":"'' @ hex @ js ''"}''\<close>
  by (simp add: JSON_stringify_key_def QuoteJSONString_key)
    (simp add: QuoteJSONString_def quoteUnits_hex js_def)

section \<open>The sample requests\<close>

lemma firstValue_sample:
  "firstValue (getHeader (sampleRequest len b) (js ''content-length'')) = Inr (Some (js len))"
  by (simp add: sampleRequest_def firstValue_def)

lemma json_sample: "json (sampleRequest len b) = b"
  by (simp add: sampleRequest_def)

lemma parseInt_abc: "parseInt (Some (js ''abc'')) = NaN"
  by (simp add: parseInt_def js_def StrWhiteSpaceChar_def isDigit_def)

lemma parseInt_120: "parseInt (Some (js ''120'')) = Num 120"
  by (simp add: parseInt_def js_def StrWhiteSpaceChar_def isDigit_def digitsValue_def)

lemma parseInt_16383: "parseInt (Some (js ''16383'')) = Num 16383"
  by (simp add: parseInt_def js_def StrWhiteSpaceChar_def isDigit_def digitsValue_def)

lemma parseInt_16384: "parseInt (Some (js ''16384'')) = Num 16384"
  by (simp add: parseInt_def js_def StrWhiteSpaceChar_def isDigit_def digitsValue_def)

lemma underLimit_120: "underLimit (sampleRequest ''120'' b) = Inr True"
  by (simp add: underLimit_eq [OF firstValue_sample] parseInt_120 maxBodyLength_def)

lemma UNAME_neq_PASSWD: "UNAME \<noteq> PASSWD"
  by (simp add: UNAME_def PASSWD_def js_def)

lemma members_uname: "map_of [(UNAME, u), (PASSWD, p)] UNAME = Some u"
  by simp

lemma members_passwd: "map_of [(UNAME, u), (PASSWD, p)] PASSWD = Some p"
  using UNAME_neq_PASSWD by simp

lemma json_credentials:
  "json (sampleRequest len (Some (credentials u p))) = Some (Obj [(UNAME, Str u), (PASSWD, Str p)])"
  by (simp add: sampleRequest_def credentials_def)

lemma length_sample_digest: "length (digest sampleEnv algorithm msg) = 32"
  by (simp add: sampleEnv_def zeros32_def)

lemma lower_Alice: "toLowerCase sampleEnv (js ''Alice'') = js ''alice''"
  by (simp add: sampleEnv_def asciiLower_def js_def)

lemma lower_ALICE: "toLowerCase sampleEnv (js ''ALICE'') = js ''alice''"
  by (simp add: sampleEnv_def asciiLower_def js_def)

lemma normalizeNFC_sample: "normalizeNFC sampleEnv s = s"
  by (simp add: sampleEnv_def)

lemma encode_alicepw:
  "TextEncoder_encode (js ''alicepw'') = [0x61, 0x6C, 0x69, 0x63, 0x65, 0x70, 0x77]"
  by (simp add: TextEncoder_encode_def utf8_def isLeadSurrogate_def isTrailSurrogate_def
      scalarOfUnit_def js_def)

lemma digest_alicepw:
  "generateDigest sampleEnv (js ''SHA-256'') (js ''alicepw'') =
     js ''616c696365707700000000000000000000000000000000000000000000000000''"
  by (simp add: generateDigest_def encode_alicepw)
    (simp add: sampleEnv_def zeros32_def hexOfBytes_concat byteHex_def hexDigit_def js_def)

lemma stringify_alicepw:
  \<open>JSON_stringify_key
     (js ''616c696365707700000000000000000000000000000000000000000000000000'') =
   js ''{"key":"616c696365707700000000000000000000000000000000000000000000000000"}''\<close>
  by (subst JSON_stringify_key_hex) (simp_all add: js_def isLowerHex_def)

section \<open>The size gate\<close>

text \<open>
  C1, as the code has it. When the \<^verbatim>\<open>content-length\<close> header is there and its first
  value is missing or does not parse as an integer (\<^verbatim>\<open>parseInt\<close> gives NaN, which is
  not below the limit), the handler does not read the body: it logs an error and
  answers 500 with the body \<^verbatim>\<open>Body too large\<close>.
\<close>

theorem unparseable_content_length_rejected:
  assumes "firstValue (getHeader request (js ''content-length'')) = Inr h"
      and "parseInt h = NaN"
  shows "responseProvider E request =
           ([LogError (js ''Body too large'')],
            Inr (createResponse 500 [] (js ''Body too large'')))"
  using assms by (simp add: underLimit_eq responseProvider_too_large)

theorem unparseable_content_length_rejected_witness:
  "firstValue
     (getHeader (sampleRequest ''abc'' (Some (credentials (js ''alice'') (js ''secret''))))
        (js ''content-length'')) = Inr (Some (js ''abc''))
   \<and> parseInt (Some (js ''abc'')) = NaN
   \<and> responseProvider sampleEnv
         (sampleRequest ''abc'' (Some (credentials (js ''alice'') (js ''secret'')))) =
       ([LogError (js ''Body too large'')], Inr (createResponse 500 [] (js ''Body too large'')))"
  using unparseable_content_length_rejected
          [OF firstValue_sample parseInt_abc, where E = sampleEnv]
  by (simp add: firstValue_sample parseInt_abc)

text \<open>
  C1 as it was stated fails: with \<^verbatim>\<open>content-length: abc\<close> and a body that would pass
  every check, the answer is \<^verbatim>\<open>Body too large\<close> and the body is never read; with no
  \<^verbatim>\<open>content-length\<close> header at all, the handler throws and the body is not read either.
\<close>

theorem content_length_counterexample:
  "responseProvider sampleEnv
     (sampleRequest ''abc'' (Some (credentials (js ''alice'') (js ''secret'')))) =
   ([LogError (js ''Body too large'')], Inr (createResponse 500 [] (js ''Body too large'')))
   \<and> responseProvider sampleEnv
       \<lparr>getHeader = (\<lambda>k. None), json = Some (credentials (js ''alice'') (js ''secret''))\<rparr> =
     ([], Inl TypeError)"
  by (simp add: responseProvider_def underLimit_def andThen_def firstValue_def
      sampleRequest_def parseInt_abc)

text \<open>
  C4. When the first \<^verbatim>\<open>content-length\<close> value parses to 16383 the gate passes: reading
  the body is the first effect, and the answer is not \<^verbatim>\<open>Body too large\<close>. When it
  parses to 16384 the only effect is the error log, the body is not read, and the
  answer is 500 with the body \<^verbatim>\<open>Body too large\<close>.
\<close>

theorem content_length_boundary:
  assumes "firstValue (getHeader request (js ''content-length'')) = Inr h"
  shows "(parseInt h = Num 16383 \<longrightarrow>
            (\<exists>rest. fst (responseProvider E request) = ReadBody # rest)
            \<and> snd (responseProvider E request)
                \<noteq> Inr (createResponse 500 [] (js ''Body too large'')))
       \<and> (parseInt h = Num 16384 \<longrightarrow>
            responseProvider E request =
              ([LogError (js ''Body too large'')],
               Inr (createResponse 500 [] (js ''Body too large'')))
            \<and> ReadBody \<notin> set (fst (responseProvider E request)))"
  using assms
  by (auto simp: underLimit_eq maxBodyLength_def responseProvider_too_large
      intro!: responseProvider_reads_body responseProvider_not_too_large)

theorem content_length_boundary_witness:
  "parseInt (Some (js ''16383'')) = Num 16383
   \<and> responseProvider sampleEnv (sampleRequest ''16383'' None) =
       ([ReadBody, LogError (js ''Something wrong with the request body'')],
        Inr (createResponse 500 [] (js ''Something wrong with the provided body'')))
   \<and> parseInt (Some (js ''16384'')) = Num 16384
   \<and> responseProvider sampleEnv (sampleRequest ''16384'' None) =
       ([LogError (js ''Body too large'')], Inr (createResponse 500 [] (js ''Body too large'')))"
proof -
  have gate: "underLimit (sampleRequest ''16383'' None) = Inr True"
    by (simp add: underLimit_eq [OF firstValue_sample] parseInt_16383 maxBodyLength_def)
  have low: "responseProvider sampleEnv (sampleRequest ''16383'' None) =
       ([ReadBody, LogError (js ''Something wrong with the request body'')],
        Inr (createResponse 500 [] (js ''Something wrong with the provided body'')))"
    using content_length_boundary
            [OF firstValue_sample [of "''16383''" None], where E = sampleEnv]
    by (simp add: parseInt_16383 responseProvider_invalid gate json_sample bodyIsValid_Null)
  have high: "responseProvider sampleEnv (sampleRequest ''16384'' None) =
       ([LogError (js ''Body too large'')], Inr (createResponse 500 [] (js ''Body too large'')))"
    using content_length_boundary
            [OF firstValue_sample [of "''16384''" None], where E = sampleEnv]
    by (simp add: parseInt_16384)
  from low high show ?thesis
    by (simp add: parseInt_16383 parseInt_16384)
qed

section \<open>Validation of the body\<close>

text \<open>
  C7. Below the size limit, a body that is not valid JSON (the promise of
  \<^verbatim>\<open>request.json()\<close> is rejected) never makes the handler throw: the body is taken as
  \<^verbatim>\<open>null\<close>, an error is logged and the answer is 500 with the body
  \<^verbatim>\<open>Something wrong with the provided body\<close>. A JSON object without \<^verbatim>\<open>uname\<close>, without
  \<^verbatim>\<open>passwd\<close>, or with a password string of length at most 1 gets the same effects and
  the same answer.
\<close>

theorem malformed_body_same_as_invalid_fields:
  assumes "underLimit request = Inr True" and "json request = None"
      and "underLimit request' = Inr True" and "json request' = Some (Obj ms)"
      and "map_of ms UNAME = None \<or> map_of ms PASSWD = None
           \<or> (\<exists>p. map_of ms PASSWD = Some (Str p) \<and> length p \<le> 1)"
  shows "responseProvider E request =
           ([ReadBody, LogError (js ''Something wrong with the request body'')],
            Inr (createResponse 500 [] (js ''Something wrong with the provided body'')))
       \<and> responseProvider E request' = responseProvider E request"
proof -
  have "bodyIsValid E (Obj ms) = Inr False"
    using assms(5)
    by (auto simp: bodyIsValid_def andThen_def greaterThan1_def split: option.splits)
  then show ?thesis
    using assms(1-4) by (simp add: responseProvider_invalid bodyIsValid_Null)
qed

theorem malformed_body_same_as_invalid_fields_witness:
  "underLimit (sampleRequest ''120'' None) = Inr True
   \<and> json (sampleRequest ''120'' None) = None
   \<and> map_of [(UNAME, Str (js ''alice''))] PASSWD = None
   \<and> responseProvider sampleEnv (sampleRequest ''120'' None) =
       ([ReadBody, LogError (js ''Something wrong with the request body'')],
        Inr (createResponse 500 [] (js ''Something wrong with the provided body'')))
   \<and> responseProvider sampleEnv
         (sampleRequest ''120'' (Some (Obj [(UNAME, Str (js ''alice''))]))) =
       responseProvider sampleEnv (sampleRequest ''120'' None)"
proof -
  have missing: "map_of [(UNAME, Str (js ''alice''))] PASSWD = None"
    using UNAME_neq_PASSWD by simp
  then have invalid: "map_of [(UNAME, Str (js ''alice''))] UNAME = None
      \<or> map_of [(UNAME, Str (js ''alice''))] PASSWD = None
      \<or> (\<exists>p. map_of [(UNAME, Str (js ''alice''))] PASSWD = Some (Str p) \<and> length p \<le> 1)"
    by blast
  from malformed_body_same_as_invalid_fields
         [OF underLimit_120 json_sample underLimit_120 json_sample invalid,
          where E = sampleEnv]
  show ?thesis
    using missing by (simp add: underLimit_120 json_sample)
qed

text \<open>
  C6, as the code has it. The length that must exceed 1 is the \<^verbatim>\<open>length\<close> of the
  JavaScript string, its number of UTF-16 code units: with a truthy \<^verbatim>\<open>uname\<close>, a
  password string passes the checks exactly when it has more than one code unit. That
  is neither its number of bytes nor its number of Unicode characters.
\<close>

theorem password_length_in_code_units:
  assumes "map_of ms UNAME = Some u" and "ToBoolean u"
      and "map_of ms PASSWD = Some (Str passwd)"
  shows "bodyIsValid E (Obj ms) = Inr (1 < length passwd)"
  using assms by (auto simp: bodyIsValid_def andThen_def greaterThan1_def)

text \<open>
  The password \<^verbatim>\<open>U+00E9\<close> (e with acute accent) is one code unit and two bytes in
  UTF-8: it is rejected, so bytes are not what is counted.
\<close>

theorem password_length_in_code_units_witness:
  "map_of [(UNAME, Str (js ''alice'')), (PASSWD, Str [0xE9])] UNAME = Some (Str (js ''alice''))
   \<and> ToBoolean (Str (js ''alice''))
   \<and> map_of [(UNAME, Str (js ''alice'')), (PASSWD, Str [0xE9])] PASSWD = Some (Str [0xE9])
   \<and> length (TextEncoder_encode [0xE9]) = 2
   \<and> bodyIsValid sampleEnv (credentials (js ''alice'') [0xE9]) = Inr False"
proof -
  have t: "ToBoolean (Str (js ''alice''))"
    by (simp add: js_def)
  have bytes: "length (TextEncoder_encode [0xE9]) = 2"
    by (simp add: TextEncoder_encode_def utf8_def scalarOfUnit_def isLeadSurrogate_def
        isTrailSurrogate_def)
  have rejected: "bodyIsValid sampleEnv (credentials (js ''alice'') [0xE9]) = Inr False"
    using password_length_in_code_units
            [OF members_uname t members_passwd, where passwd = "[0xE9]" and E = sampleEnv]
    by (simp add: credentials_def)
  show ?thesis
    by (intro conjI members_uname members_passwd t bytes rejected)
qed

text \<open>
  C6 as it was stated fails: the password \<^verbatim>\<open>U+1F600\<close> is a single character, written
  as the surrogate pair \<^verbatim>\<open>D83D DE00\<close>, and it passes the checks.
\<close>

theorem single_character_password_counterexample:
  "length (scalarValues [0xD83D, 0xDE00]) = 1
   \<and> bodyIsValid sampleEnv (credentials (js ''alice'') [0xD83D, 0xDE00]) = Inr True"
  by (simp add: isLeadSurrogate_def isTrailSurrogate_def bodyIsValid_def andThen_def
      greaterThan1_def credentials_def UNAME_neq_PASSWD js_def)

text \<open>
  C5, as the code has it. Below the size limit, with a JSON object whose \<^verbatim>\<open>uname\<close> is
  truthy and whose \<^verbatim>\<open>passwd\<close> is a string, the length being the string's number of
  UTF-16 code units: a password of length 1 is answered with 500; a password of length 2
  passes the checks, and it is answered with 200 when \<^verbatim>\<open>uname\<close> is a string.
\<close>

theorem password_length_boundary:
  assumes "underLimit request = Inr True" and "json request = Some (Obj ms)"
      and "map_of ms UNAME = Some u" and "ToBoolean u"
      and "map_of ms PASSWD = Some (Str passwd)"
  shows "(length passwd = 1 \<longrightarrow>
            snd (responseProvider E request) =
              Inr (createResponse 500 [] (js ''Something wrong with the provided body'')))
       \<and> (length passwd = 2 \<longrightarrow>
            bodyIsValid E (Obj ms) = Inr True
            \<and> (\<forall>uname. u = Str uname \<longrightarrow>
                  (\<exists>b. snd (responseProvider E request) =
                    Inr (createResponse 200
                          [(js ''Content-Type'', [js ''application/json''])] b))))"
proof -
  have valid: "bodyIsValid E (Obj ms) = Inr (1 < length passwd)"
    using assms(3-5) by (auto simp: bodyIsValid_def andThen_def greaterThan1_def)
  have short: "length passwd = 1 \<Longrightarrow>
      snd (responseProvider E request) =
        Inr (createResponse 500 [] (js ''Something wrong with the provided body''))"
    using assms(1,2) valid by (simp add: responseProvider_invalid)
  have long: "\<exists>b. snd (responseProvider E request) =
        Inr (createResponse 200 [(js ''Content-Type'', [js ''application/json''])] b)"
    if "length passwd = 2" and "u = Str uname" for uname
    using that assms valid
    by (auto simp: normalizedUnamePasswd_strings responseProvider_valid)
  from valid short long show ?thesis
    by auto
qed

theorem password_length_boundary_witness:
  "ToBoolean (Str (js ''alice''))
   \<and> length (js ''p'') = 1
   \<and> snd (responseProvider sampleEnv
            (sampleRequest ''120'' (Some (credentials (js ''alice'') (js ''p''))))) =
       Inr (createResponse 500 [] (js ''Something wrong with the provided body''))
   \<and> length (js ''pw'') = 2
   \<and> (\<exists>b. snd (responseProvider sampleEnv
                 (sampleRequest ''120'' (Some (credentials (js ''alice'') (js ''pw''))))) =
            Inr (createResponse 200 [(js ''Content-Type'', [js ''application/json''])] b))"
proof -
  have u: "ToBoolean (Str (js ''alice''))"
    by (simp add: js_def)
  have one: "length (js ''p'') = 1" and two: "length (js ''pw'') = 2"
    by (simp_all add: js_def)
  from password_length_boundary
         [OF underLimit_120 json_credentials members_uname u members_passwd,
          where passwd = "js ''p''" and E = sampleEnv]
       password_length_boundary
         [OF underLimit_120 json_credentials members_uname u members_passwd,
          where passwd = "js ''pw''" and E = sampleEnv]
  show ?thesis
    using u one two by simp
qed

text \<open>
  C5 as it was stated fails: a truthy field need not be a string. With the number 5 as
  \<^verbatim>\<open>uname\<close> and the password \<^verbatim>\<open>pw\<close> of length 2, and with the user name \<^verbatim>\<open>alice\<close> and
  an array of two elements as \<^verbatim>\<open>passwd\<close>, the checks pass and the handler throws when
  it normalises: no 200 response is produced.
\<close>

theorem truthy_fields_length_two_counterexample:
  "ToBoolean (Number (Num 5))
   \<and> length (js ''pw'') = 2
   \<and> bodyIsValid sampleEnv (Obj [(UNAME, Number (Num 5)), (PASSWD, Str (js ''pw''))]) = Inr True
   \<and> responseProvider sampleEnv
         (sampleRequest ''120'' (Some (Obj [(UNAME, Number (Num 5)), (PASSWD, Str (js ''pw''))])))
       = ([ReadBody], Inl TypeError)
   \<and> bodyIsValid sampleEnv (Obj [(UNAME, Str (js ''alice'')), (PASSWD, Arr [Null, Null])])
       = Inr True
   \<and> responseProvider sampleEnv
         (sampleRequest ''120''
            (Some (Obj [(UNAME, Str (js ''alice'')), (PASSWD, Arr [Null, Null])])))
       = ([ReadBody], Inl TypeError)"
  by (simp add: responseProvider_def underLimit_120 json_sample bodyIsValid_def
      normalizedUnamePasswd_def andThen_def greaterThan1_def UNAME_neq_PASSWD
      UNAME_neq_PASSWD [symmetric] js_def)

section \<open>What is hashed, and the answer\<close>

text \<open>
  C2. For a request below the size limit whose body is a JSON object with strings as
  \<^verbatim>\<open>uname\<close> and \<^verbatim>\<open>passwd\<close> and which passes the checks, the string that is hashed is
  the user name, first put in lower case and then normalised to NFC, followed with no
  separator by the password normalised to NFC (its case unchanged). The digest is
  taken with the algorithm \<^verbatim>\<open>SHA-256\<close> over the UTF-8 bytes of that string, and its
  hexadecimal text is the key of the answer.
\<close>

theorem hashed_string_is_normalised_concatenation:
  assumes "underLimit request = Inr True" and "json request = Some (Obj ms)"
      and "map_of ms UNAME = Some (Str uname)" and "map_of ms PASSWD = Some (Str passwd)"
      and "bodyIsValid E (Obj ms) = Inr True"
  shows "normalizedUnamePasswd E (Obj ms) =
           Inr (normalizeNFC E (toLowerCase E uname) @ normalizeNFC E passwd)
       \<and> snd (responseProvider E request) =
           Inr (createResponse 200 [(js ''Content-Type'', [js ''application/json''])]
                 (JSON_stringify_key (hexOfBytes (digest E (js ''SHA-256'')
                    (TextEncoder_encode
                       (normalizeNFC E (toLowerCase E uname) @ normalizeNFC E passwd))))))"
  using assms
  by (simp add: normalizedUnamePasswd_strings responseProvider_valid generateDigest_def)

text \<open>
  The example of the source's comment, on which the sample environment is exact: the
  string hashed is \<^verbatim>\<open>normalisation@test.nl\<close> followed by the password, 30 bytes in
  UTF-8 (each of the three accented letters takes two).
\<close>

theorem hashed_string_is_normalised_concatenation_witness:
  "bodyIsValid sampleEnv (Obj [(UNAME, Str exampleUname), (PASSWD, Str examplePasswd)])
     = Inr True
   \<and> normalizedUnamePasswd sampleEnv
         (Obj [(UNAME, Str exampleUname), (PASSWD, Str examplePasswd)])
       = Inr (js ''normalisation@test.nl'' @ examplePasswd)
   \<and> TextEncoder_encode (js ''normalisation@test.nl'' @ examplePasswd) = exampleBytes
   \<and> snd (responseProvider sampleEnv
            (sampleRequest ''120'' (Some (credentials exampleUname examplePasswd)))) =
       Inr (createResponse 200 [(js ''Content-Type'', [js ''application/json''])]
             (JSON_stringify_key (hexOfBytes (digest sampleEnv (js ''SHA-256'') exampleBytes))))"
proof -
  have valid:
    "bodyIsValid sampleEnv (Obj [(UNAME, Str exampleUname), (PASSWD, Str examplePasswd)])
       = Inr True"
    by (simp add: bodyIsValid_strings [OF members_uname members_passwd]
        exampleUname_def examplePasswd_def js_def)
  have lower: "toLowerCase sampleEnv exampleUname = js ''normalisation@test.nl''"
    by (simp add: sampleEnv_def asciiLower_def exampleUname_def js_def)
  have bytes: "TextEncoder_encode (js ''normalisation@test.nl'' @ examplePasswd) = exampleBytes"
    by (simp add: TextEncoder_encode_def utf8_def isLeadSurrogate_def isTrailSurrogate_def
        scalarOfUnit_def examplePasswd_def exampleBytes_def js_def)
  from hashed_string_is_normalised_concatenation
         [OF underLimit_120 json_credentials members_uname members_passwd valid]
  show ?thesis
    by (simp add: valid normalizeNFC_sample lower bytes)
qed

text \<open>
  C3, as the code has it. Let the digest provider return 32 bytes for \<^verbatim>\<open>SHA-256\<close>. For
  every request whose \<^verbatim>\<open>content-length\<close> parses below 16384 and whose body is a JSON
  object with a non-empty string \<^verbatim>\<open>uname\<close> and a string \<^verbatim>\<open>passwd\<close> of length (in UTF-16
  code units) at least 2, the answer has status 200, the single header
  \<^verbatim>\<open>Content-Type: application/json\<close>, and as body the JSON text of an object with the
  one member \<^verbatim>\<open>key\<close>, whose value is a string of 64 lowercase hexadecimal digits.
\<close>

theorem valid_input_gives_200_with_hex_key:
  assumes "\<And>msg. length (digest E (js ''SHA-256'') msg) = 32"
      and "underLimit request = Inr True" and "json request = Some (Obj ms)"
      and "map_of ms UNAME = Some (Str uname)" and "uname \<noteq> []"
      and "map_of ms PASSWD = Some (Str passwd)" and "2 \<le> length passwd"
  shows \<open>\<exists>hex. snd (responseProvider E request) =
                 Inr \<lparr>status = 200,
                      headers = [(js ''Content-Type'', [js ''application/json''])],
                      body = js ''{"key":"'' @ hex @ js ''"}''\<rparr>
             \<and> length hex = 64 \<and> list_all isLowerHex hex\<close>
proof -
  let ?s = "normalizeNFC E (toLowerCase E uname) @ normalizeNFC E passwd"
  let ?hex = "generateDigest E (js ''SHA-256'') ?s"
  have hex: "?hex = hexOfBytes (digest E (js ''SHA-256'') (TextEncoder_encode ?s))"
    by (simp add: generateDigest_def)
  have len: "length ?hex = 64"
    by (simp add: hex length_hexOfBytes assms(1))
  have low: "list_all isLowerHex ?hex"
    by (simp add: hex list_all_hexOfBytes)
  have "snd (responseProvider E request) =
          Inr (createResponse 200 [(js ''Content-Type'', [js ''application/json''])]
                (JSON_stringify_key ?hex))"
    using assms(2-7)
    by (simp add: bodyIsValid_strings normalizedUnamePasswd_strings responseProvider_valid)
  with len low show ?thesis
    by (auto simp: createResponse_def JSON_stringify_key_hex)
qed

theorem valid_input_gives_200_with_hex_key_witness:
  \<open>(\<forall>msg. length (digest sampleEnv (js ''SHA-256'') msg) = 32)
   \<and> underLimit (sampleRequest ''120'' (Some (credentials (js ''Alice'') (js ''pw'')))) = Inr True
   \<and> js ''Alice'' \<noteq> [] \<and> 2 \<le> length (js ''pw'')
   \<and> (\<exists>hex. snd (responseProvider sampleEnv
                    (sampleRequest ''120'' (Some (credentials (js ''Alice'') (js ''pw''))))) =
               Inr \<lparr>status = 200,
                    headers = [(js ''Content-Type'', [js ''application/json''])],
                    body = js ''{"key":"'' @ hex @ js ''"}''\<rparr>
             \<and> length hex = 64 \<and> list_all isLowerHex hex)\<close>
proof -
  have u: "js ''Alice'' \<noteq> []" and p: "2 \<le> length (js ''pw'')"
    by (simp_all add: js_def)
  from valid_input_gives_200_with_hex_key
         [OF length_sample_digest underLimit_120 json_credentials members_uname u
             members_passwd p]
  show ?thesis
    using u p by (simp add: length_sample_digest underLimit_120)
qed

text \<open>
  C3 as it was stated fails: the checks of the handler do not ask for strings. With the
  non-empty user name \<^verbatim>\<open>alice\<close> and an array of two strings as \<^verbatim>\<open>passwd\<close> (its length
  is 2), and with \<^verbatim>\<open>true\<close> as \<^verbatim>\<open>uname\<close> and the password \<^verbatim>\<open>secret\<close>, the size gate and
  the checks pass and the handler throws instead of answering 200.
\<close>

theorem valid_input_not_strings_counterexample:
  "parseInt (Some (js ''120'')) = Num 120
   \<and> bodyIsValid sampleEnv
         (Obj [(UNAME, Str (js ''alice'')), (PASSWD, Arr [Str (js ''a''), Str (js ''b'')])])
       = Inr True
   \<and> responseProvider sampleEnv
         (sampleRequest ''120''
            (Some (Obj [(UNAME, Str (js ''alice'')),
                        (PASSWD, Arr [Str (js ''a''), Str (js ''b'')])])))
       = ([ReadBody], Inl TypeError)
   \<and> bodyIsValid sampleEnv (Obj [(UNAME, Bool True), (PASSWD, Str (js ''secret''))])
       = Inr True
   \<and> responseProvider sampleEnv
         (sampleRequest ''120'' (Some (Obj [(UNAME, Bool True), (PASSWD, Str (js ''secret''))])))
       = ([ReadBody], Inl TypeError)"
  by (simp add: responseProvider_def underLimit_120 json_sample bodyIsValid_def
      normalizedUnamePasswd_def andThen_def greaterThan1_def UNAME_neq_PASSWD
      UNAME_neq_PASSWD [symmetric] js_def parseInt_def StrWhiteSpaceChar_def isDigit_def
      digitsValue_def)

text \<open>
  The same request, evaluated: the sample provider returns the bytes of \<^verbatim>\<open>alicepw\<close>
  padded with zeros, and the body of the answer is their hexadecimal text under
  \<^verbatim>\<open>key\<close>.
\<close>

lemma sample_request_answer:
  \<open>responseProvider sampleEnv
     (sampleRequest ''120'' (Some (credentials (js ''Alice'') (js ''pw'')))) =
   ([ReadBody, LogInfo (js ''SHA-256 hash created from username+password combination'')],
    Inr \<lparr>status = 200,
         headers = [(js ''Content-Type'', [js ''application/json''])],
         body = js ''{"key":"616c696365707700000000000000000000000000000000000000000000000000"}''\<rparr>)\<close>
proof -
  have valid:
    "bodyIsValid sampleEnv (Obj [(UNAME, Str (js ''Alice'')), (PASSWD, Str (js ''pw''))])
       = Inr True"
    by (simp add: bodyIsValid_strings [OF members_uname members_passwd] js_def)
  have input:
    "normalizedUnamePasswd sampleEnv
       (Obj [(UNAME, Str (js ''Alice'')), (PASSWD, Str (js ''pw''))]) = Inr (js ''alicepw'')"
    by (simp add: normalizedUnamePasswd_strings [OF members_uname members_passwd]
        normalizeNFC_sample lower_Alice) (simp add: js_def)
  show ?thesis
    using responseProvider_valid
            [OF underLimit_120 [of "Some (credentials (js ''Alice'') (js ''pw''))"],
             where E = sampleEnv and s = "js ''alicepw''"]
    by (simp add: json_sample credentials_def valid input digest_alicepw stringify_alicepw
        createResponse_def)
qed

section \<open>Credentials that hash alike\<close>

text \<open>
  C8. Take two requests below the size limit that carry the same password string (of
  length above 1) and non-empty user names. If the user names differ only in case (they
  have the same lower-case form), or their lower-case forms have the same NFC
  normalisation, then both requests get the same answer, with the same digest string:
  the 200 response whose key is the digest of the first one's normalised credentials.
\<close>

theorem equivalent_usernames_same_digest:
  assumes "underLimit r1 = Inr True" and "json r1 = Some (Obj ms1)"
      and "map_of ms1 UNAME = Some (Str u1)" and "map_of ms1 PASSWD = Some (Str passwd)"
      and "underLimit r2 = Inr True" and "json r2 = Some (Obj ms2)"
      and "map_of ms2 UNAME = Some (Str u2)" and "map_of ms2 PASSWD = Some (Str passwd)"
      and "u1 \<noteq> []" and "u2 \<noteq> []" and "1 < length passwd"
      and "toLowerCase E u1 = toLowerCase E u2
           \<or> normalizeNFC E (toLowerCase E u1) = normalizeNFC E (toLowerCase E u2)"
  shows "generateDigest E (js ''SHA-256'')
             (normalizeNFC E (toLowerCase E u1) @ normalizeNFC E passwd)
           = generateDigest E (js ''SHA-256'')
               (normalizeNFC E (toLowerCase E u2) @ normalizeNFC E passwd)
       \<and> responseProvider E r1 = responseProvider E r2
       \<and> snd (responseProvider E r2) =
             Inr (createResponse 200 [(js ''Content-Type'', [js ''application/json''])]
                   (JSON_stringify_key (generateDigest E (js ''SHA-256'')
                      (normalizeNFC E (toLowerCase E u1) @ normalizeNFC E passwd))))"
proof -
  have "normalizeNFC E (toLowerCase E u1) = normalizeNFC E (toLowerCase E u2)"
    using assms(12) by auto
  then show ?thesis
    using assms(1-11)
    by (simp add: bodyIsValid_strings normalizedUnamePasswd_strings responseProvider_valid)
qed

theorem equivalent_usernames_same_digest_witness:
  "toLowerCase sampleEnv (js ''Alice'') = toLowerCase sampleEnv (js ''ALICE'')
   \<and> js ''Alice'' \<noteq> js ''ALICE''
   \<and> responseProvider sampleEnv
         (sampleRequest ''120'' (Some (credentials (js ''Alice'') (js ''pw'')))) =
       responseProvider sampleEnv
         (sampleRequest ''120'' (Some (credentials (js ''ALICE'') (js ''pw''))))
   \<and> snd (responseProvider sampleEnv
            (sampleRequest ''120'' (Some (credentials (js ''ALICE'') (js ''pw''))))) =
       Inr (createResponse 200 [(js ''Content-Type'', [js ''application/json''])]
             (JSON_stringify_key (generateDigest sampleEnv (js ''SHA-256'') (js ''alicepw''))))"
proof -
  have u1: "js ''Alice'' \<noteq> []" and u2: "js ''ALICE'' \<noteq> []" and p: "1 < length (js ''pw'')"
    and differ: "js ''Alice'' \<noteq> js ''ALICE''"
    by (simp_all add: js_def)
  have same: "toLowerCase sampleEnv (js ''Alice'') = toLowerCase sampleEnv (js ''ALICE'')"
    by (simp add: lower_Alice lower_ALICE)
  then have equivalent:
    "toLowerCase sampleEnv (js ''Alice'') = toLowerCase sampleEnv (js ''ALICE'')
     \<or> normalizeNFC sampleEnv (toLowerCase sampleEnv (js ''Alice''))
         = normalizeNFC sampleEnv (toLowerCase sampleEnv (js ''ALICE''))"
    by blast
  have input: "js ''alice'' @ js ''pw'' = js ''alicepw''"
    by (simp add: js_def)
  from equivalent_usernames_same_digest
         [OF underLimit_120 json_credentials members_uname members_passwd
             underLimit_120 json_credentials members_uname members_passwd
             u1 u2 p equivalent]
  show ?thesis
    using same differ by (simp add: normalizeNFC_sample lower_Alice input)
qed

text \<open>
  C9. Nothing separates the user name from the password in the string that is hashed.
  Two requests below the size limit, each with a non-empty user name string and a
  password string of length above 1, whose normalised user name followed by the
  normalised password give the same string, get the same digest and the same 200
  response, wherever the boundary between user name and password lies.
\<close>

theorem shifted_boundary_same_digest:
  assumes "underLimit r1 = Inr True" and "json r1 = Some (Obj ms1)"
      and "map_of ms1 UNAME = Some (Str u1)" and "map_of ms1 PASSWD = Some (Str p1)"
      and "underLimit r2 = Inr True" and "json r2 = Some (Obj ms2)"
      and "map_of ms2 UNAME = Some (Str u2)" and "map_of ms2 PASSWD = Some (Str p2)"
      and "u1 \<noteq> []" and "u2 \<noteq> []" and "1 < length p1" and "1 < length p2"
      and "normalizeNFC E (toLowerCase E u1) @ normalizeNFC E p1
           = normalizeNFC E (toLowerCase E u2) @ normalizeNFC E p2"
  shows "generateDigest E (js ''SHA-256'')
             (normalizeNFC E (toLowerCase E u1) @ normalizeNFC E p1)
           = generateDigest E (js ''SHA-256'')
               (normalizeNFC E (toLowerCase E u2) @ normalizeNFC E p2)
       \<and> responseProvider E r1 = responseProvider E r2
       \<and> snd (responseProvider E r2) =
             Inr (createResponse 200 [(js ''Content-Type'', [js ''application/json''])]
                   (JSON_stringify_key (generateDigest E (js ''SHA-256'')
                      (normalizeNFC E (toLowerCase E u1) @ normalizeNFC E p1))))"
  using assms
  by (simp add: bodyIsValid_strings normalizedUnamePasswd_strings responseProvider_valid)

theorem shifted_boundary_same_digest_witness:
  "credentials (js ''ab'') (js ''cd'') \<noteq> credentials (js ''a'') (js ''bcd'')
   \<and> responseProvider sampleEnv
         (sampleRequest ''120'' (Some (credentials (js ''ab'') (js ''cd'')))) =
       responseProvider sampleEnv
         (sampleRequest ''120'' (Some (credentials (js ''a'') (js ''bcd''))))
   \<and> snd (responseProvider sampleEnv
            (sampleRequest ''120'' (Some (credentials (js ''a'') (js ''bcd''))))) =
       Inr (createResponse 200 [(js ''Content-Type'', [js ''application/json''])]
             (JSON_stringify_key (generateDigest sampleEnv (js ''SHA-256'') (js ''abcd''))))"
proof -
  have u1: "js ''ab'' \<noteq> []" and u2: "js ''a'' \<noteq> []"
    and p1: "1 < length (js ''cd'')" and p2: "1 < length (js ''bcd'')"
    and differ: "credentials (js ''ab'') (js ''cd'') \<noteq> credentials (js ''a'') (js ''bcd'')"
    by (simp_all add: js_def credentials_def)
  have lower: "toLowerCase sampleEnv (js ''ab'') = js ''ab''"
    "toLowerCase sampleEnv (js ''a'') = js ''a''"
    by (simp_all add: sampleEnv_def asciiLower_def js_def)
  have input: "js ''ab'' @ js ''cd'' = js ''abcd''" "js ''a'' @ js ''bcd'' = js ''abcd''"
    by (simp_all add: js_def)
  have same:
    "normalizeNFC sampleEnv (toLowerCase sampleEnv (js ''ab'')) @ normalizeNFC sampleEnv (js ''cd'')
     = normalizeNFC sampleEnv (toLowerCase sampleEnv (js ''a'')) @ normalizeNFC sampleEnv (js ''bcd'')"
    by (simp add: normalizeNFC_sample lower input)
  from shifted_boundary_same_digest
         [OF underLimit_120 json_credentials members_uname members_passwd
             underLimit_120 json_credentials members_uname members_passwd
             u1 u2 p1 p2 same]
  show ?thesis
    using differ by (simp add: normalizeNFC_sample lower input)
qed

end
